theory Spec2Isabelle
  imports Complex_Main "HOL-Library.Word"
begin

section \<open>The frame-pair classification pipeline of \<open>app/server/pipeline/__init__.py\<close>\<close>

text \<open>
  The module filters pairs of video frames through up to three stages (solid-colour
  check, scene-content check by a vision model, SIFT pattern matching); it is written
  to sort accepted pairs into label-named folders, log the rejected ones and zip the
  output tree.

  The embedding follows the Python text function by function and keeps its names.
  What the module only calls (OpenCV, numpy's division, the Ollama client) is taken as
  a record of capabilities \<open>cv_env\<close>; what it can change (the file system, the requests
  sent to the model) is an explicit \<open>world\<close> that every effectful function takes and
  returns. Every exception the module raises, or lets through from a capability, is a
  value \<open>Inl e\<close> of a sum type; an effectful function returns it together with the
  world as the exception leaves it.
\<close>

subsection \<open>Images and errors\<close>

text \<open>
  A frame is a numpy array of unsigned bytes: its \<open>shape\<close> and its elements in row-major
  order. \<open>array.size\<close> is the product of the shape. Python's \<open>None\<close> is \<open>None\<close> of
  \<open>ndarray option\<close>.
\<close>

record ndarray =
  shape :: "nat list"
  elems :: "8 word list"

definition array_size :: "ndarray \<Rightarrow> nat" where
  "array_size a = prod_list (shape a)"

text \<open>An array is well formed when it holds as many elements as its shape says.\<close>

definition well_formed :: "ndarray \<Rightarrow> bool" where
  "well_formed a = (length (elems a) = array_size a)"

type_synonym path = "string list"

text \<open>
  The exceptions that leave the module's functions: \<open>cv2.error\<close>, and the \<open>NameError\<close>
  of a name that is not bound, with that name.
\<close>

datatype error =
    CvError
  | NameError string

subsection \<open>Capabilities the module calls\<close>

text \<open>
  \<^item> \<open>cvtColor\<close>: \<open>cv2.cvtColor(img, cv2.COLOR_BGR2GRAY)\<close>, which raises \<open>cv2.error\<close> on an
    input it rejects;
  \<^item> \<open>detectAndCompute\<close>: \<open>sift.detectAndCompute(img, None)\<close>, the keypoints and the
    descriptors (each possibly \<open>None\<close>), or \<open>cv2.error\<close>;
  \<^item> \<open>bf_match\<close>: \<open>bf.match(query, train)\<close> of the cross-checked L2 brute-force matcher;
    only the \<open>distance\<close> of each match is ever read, so a match is its distance;
  \<^item> \<open>true_divide\<close>: the float that \<open>a / b\<close> gives for a numpy integer \<open>a\<close> and a Python
    integer \<open>b\<close>, as the real number that float denotes;
  \<^item> \<open>imencode\<close>: \<open>cv2.imencode('.jpg', frame)\<close> followed by \<open>buffer.tobytes()\<close> (lines
    66-67): the bytes, or \<open>Inl msg\<close> for an exception with text \<open>msg\<close>;
  \<^item> \<open>ollama_chat\<close>: the call \<open>ollama.chat(...)\<close> with the image bytes and the prompt and
    the lookup \<open>res['message']['content']\<close> (lines 69-79): the content of the response,
    or \<open>Inl msg\<close> for an exception with text \<open>msg\<close> raised by either.
\<close>

record ('k, 'd) cv_env =
  cvtColor :: "ndarray \<Rightarrow> error + ndarray"
  detectAndCompute :: "ndarray \<Rightarrow> error + ('k list option \<times> 'd option)"
  bf_match :: "'d \<Rightarrow> 'd \<Rightarrow> error + real list"
  true_divide :: "nat \<Rightarrow> nat \<Rightarrow> real"
  imencode :: "ndarray \<Rightarrow> string + 8 word list"
  ollama_chat :: "8 word list \<Rightarrow> string \<Rightarrow> string + string"

subsection \<open>Solid-frame detector: \<open>is_mostly_black_or_white\<close>\<close>

text \<open>
  \<open>np.sum(gray_image <= t)\<close> and \<open>np.sum(gray_image >= t)\<close> count the elements on one
  side of a Python integer threshold; the comparison of a byte with an integer is the
  mathematical one.
\<close>

definition count_le :: "ndarray \<Rightarrow> int \<Rightarrow> nat" where
  "count_le a t = length (filter (\<lambda>p. uint p \<le> t) (elems a))"

definition count_ge :: "ndarray \<Rightarrow> int \<Rightarrow> nat" where
  "count_ge a t = length (filter (\<lambda>p. uint p \<ge> t) (elems a))"

text \<open>
  The grey conversion of lines 32-34, shared with \<open>patternThresholding\<close> (lines
  112-114): an array with three axes goes through \<open>cvtColor\<close>, any other is used as
  it is. An exception of \<open>cvtColor\<close> is not caught at either place.
\<close>

definition to_gray :: "('k, 'd) cv_env \<Rightarrow> ndarray \<Rightarrow> error + ndarray" where
  "to_gray env image_cv =
     (if length (shape image_cv) = 3 then cvtColor env image_cv else Inr image_cv)"

text \<open>
  The two percentages are float64 quotients of two integers (lines 44-45), rounded as
  the float division rounds them; they are compared with the cutoff, itself a float.
\<close>

definition is_mostly_black_or_white ::
  "('k, 'd) cv_env \<Rightarrow> ndarray option \<Rightarrow> int \<Rightarrow> int \<Rightarrow> real \<Rightarrow> error + bool" where
  "is_mostly_black_or_white env image_cv black_threshold_val white_threshold_val
       percentage_threshold =
     (case image_cv of
        None \<Rightarrow> Inr False
      | Some img \<Rightarrow>
          (case to_gray env img of
             Inl e \<Rightarrow> Inl e
           | Inr gray_image \<Rightarrow>
               (let total_pixels = array_size gray_image in
                if total_pixels = 0 then Inr False
                else
                  (let black_pixels = count_le gray_image black_threshold_val;
                       white_pixels = count_ge gray_image white_threshold_val;
                       black_percentage = true_divide env black_pixels total_pixels;
                       white_percentage = true_divide env white_pixels total_pixels
                   in Inr (black_percentage \<ge> percentage_threshold
                           \<or> white_percentage \<ge> percentage_threshold)))))"

subsection \<open>The world the module acts on\<close>

text \<open>
  The file system below the working directory is an association list from paths (lists
  of components) to nodes, with at most one entry per path. What a file holds is an
  image or text.
\<close>

datatype content =
    Png ndarray
  | Text string

datatype node = Dir | File content

type_synonym filesystem = "(path \<times> node) list"

text \<open>
  Besides the file system the world records, in order, the requests handed to the
  vision model: for each call of \<open>ollama.chat\<close>, the frame whose encoding it carries and
  the prompt.
\<close>

record world =
  fs :: filesystem
  requests :: "(ndarray \<times> string) list"

subsection \<open>Scene-content classifier: \<open>modelObjectDetection\<close>\<close>

text \<open>
  \<open>re.search(r'False', s, re.IGNORECASE)\<close> finds the pattern at some position of \<open>s\<close>,
  letters compared without regard to case. Strings are ASCII here, and the case folding
  is that of the letters \<open>A\<close> to \<open>Z\<close>.
\<close>

definition ascii_lower :: "char \<Rightarrow> char" where
  "ascii_lower c =
     (case map_of (zip ''ABCDEFGHIJKLMNOPQRSTUVWXYZ'' ''abcdefghijklmnopqrstuvwxyz'') c of
        Some l \<Rightarrow> l
      | None \<Rightarrow> c)"

fun match_here :: "string \<Rightarrow> string \<Rightarrow> bool" where
  "match_here [] s = True"
| "match_here (p # ps) [] = False"
| "match_here (p # ps) (c # cs) = (ascii_lower p = ascii_lower c \<and> match_here ps cs)"

fun re_search_ignorecase :: "string \<Rightarrow> string \<Rightarrow> bool" where
  "re_search_ignorecase pat [] = match_here pat []"
| "re_search_ignorecase pat (c # cs) =
     (match_here pat (c # cs) \<or> re_search_ignorecase pat cs)"


text \<open>
  The body of the \<open>try\<close> block up to the extraction of the content (lines 66-79): the
  encoding, then the request. \<open>Inl msg\<close> is an exception with text \<open>msg\<close> raised
  anywhere there, \<open>Inr content\<close> the content of the response.
\<close>

definition chat :: "('k, 'd) cv_env \<Rightarrow> ndarray \<Rightarrow> string \<Rightarrow> string + string" where
  "chat env frame model_prompt_content =
     (case imencode env frame of
        Inl msg \<Rightarrow> Inl msg
      | Inr image_bytes \<Rightarrow> ollama_chat env image_bytes model_prompt_content)"

text \<open>
  The function returns \<open>(objects_detected, model_response_content)\<close>. An exception in
  the \<open>try\<close> block is logged and leaves both variables at their initial values. When
  the encoding raises, \<open>ollama.chat\<close> is not called and no request is recorded; once it
  is called the request is recorded, whether or not the call succeeds.
\<close>

definition modelObjectDetection ::
  "('k, 'd) cv_env \<Rightarrow> ndarray option \<Rightarrow> string \<Rightarrow> world \<Rightarrow> (bool \<times> string) \<times> world" where
  "modelObjectDetection env frame_cv model_prompt_content w =
     (case frame_cv of
        None \<Rightarrow> ((True, ''Error: Input frame was None.''), w)
      | Some frame \<Rightarrow>
          (case imencode env frame of
             Inl msg \<Rightarrow> ((True, ''Error in model processing.''), w)
           | Inr image_bytes \<Rightarrow>
               (let w' = w\<lparr>requests := requests w @ [(frame, model_prompt_content)]\<rparr> in
                case ollama_chat env image_bytes model_prompt_content of
                  Inl msg \<Rightarrow> ((True, ''Error in model processing.''), w')
                | Inr model_response_content \<Rightarrow>
                    ((\<not> re_search_ignorecase ''False'' model_response_content,
                      model_response_content), w'))))"

subsection \<open>Pattern matcher: \<open>patternThresholding\<close>\<close>

text \<open>
  The matches are sorted by distance and those strictly below the cutoff are kept
  (lines 149-153). The cutoff is a Python integer, a distance a float; Python compares
  the two exactly.
\<close>

definition good_matches :: "int \<Rightarrow> real list \<Rightarrow> real list" where
  "good_matches threshold_match_val matches =
     filter (\<lambda>m. m < real_of_int threshold_match_val) (sort matches)"

text \<open>
  One turn of the loop over the references (lines 133-160), on the running pair
  \<open>(best_match_name, max_good_matches)\<close>. Each \<open>continue\<close> leaves the pair as it is.
\<close>

definition scan_pattern ::
  "('k, 'd) cv_env \<Rightarrow> 'd \<Rightarrow> int \<Rightarrow> string option \<times> nat \<Rightarrow> ndarray option \<times> string
     \<Rightarrow> string option \<times> nat" where
  "scan_pattern env test_descriptors threshold_match_val acc pattern =
     (case pattern of (pattern_img_gray, pattern_name) \<Rightarrow>
      case acc of (best_match_name, max_good_matches) \<Rightarrow>
        (case pattern_img_gray of
           None \<Rightarrow> acc
         | Some pimg \<Rightarrow>
             (case detectAndCompute env pimg of
                Inl e \<Rightarrow> acc
              | Inr (pattern_keypoints, pattern_descriptors) \<Rightarrow>
                  (case (pattern_descriptors, pattern_keypoints) of
                     (Some pd, Some pk) \<Rightarrow>
                       if length pk = 0 then acc
                       else
                         (case bf_match env test_descriptors pd of
                            Inl e \<Rightarrow> acc
                          | Inr matches \<Rightarrow>
                              (let num_good_matches =
                                     length (good_matches threshold_match_val matches)
                               in if num_good_matches > max_good_matches
                                  then (Some pattern_name, num_good_matches)
                                  else acc))
                   | _ \<Rightarrow> acc))))"

text \<open>The result is a pattern name, the string \<open>No_Pattern_Match\<close>, or \<open>None\<close>.\<close>

definition patternThresholding ::
  "('k, 'd) cv_env \<Rightarrow> ndarray option \<Rightarrow> (ndarray option \<times> string) list \<Rightarrow> int
     \<Rightarrow> error + string option" where
  "patternThresholding env test_image_cv loaded_pattern_images_data threshold_match_val =
     (case test_image_cv of
        None \<Rightarrow> Inr None
      | Some img \<Rightarrow>
          (case to_gray env img of
             Inl e \<Rightarrow> Inl e
           | Inr test_img_gray \<Rightarrow>
               (case detectAndCompute env test_img_gray of
                  Inl e \<Rightarrow> Inr None
                | Inr (test_keypoints, test_descriptors) \<Rightarrow>
                    (case (test_descriptors, test_keypoints) of
                       (Some td, Some tk) \<Rightarrow>
                         if length tk = 0 then Inr None
                         else
                           (case foldl (scan_pattern env td threshold_match_val) (None, 0)
                                   loaded_pattern_images_data of
                              (best_match_name, max_good_matches) \<Rightarrow>
                                Inr (if max_good_matches > 0 then best_match_name
                                     else Some ''No_Pattern_Match''))
                     | _ \<Rightarrow> Inr None))))"

subsection \<open>The name \<open>Path\<close>\<close>

text \<open>
  The module imports \<open>ollama\<close>, \<open>cv2\<close>, \<open>numpy\<close>, \<open>re\<close>, \<open>os\<close>, \<open>zipfile\<close>, \<open>io\<close>, \<open>shutil\<close>,
  \<open>time\<close> and \<open>logging\<close> (lines 1-10) and binds \<open>logger\<close> and its eight functions. It
  uses the name \<open>Path\<close> at lines 175, 176, 186, 194, 197, 199, 204, 290 and 303, and
  neither imports nor assigns it; \<open>Path\<close> is not a builtin either. Python looks a global
  name up when the expression is evaluated, so each of these expressions raises
  \<open>NameError\<close>, whatever its argument.
\<close>

subsection \<open>Writing the outputs\<close>

text \<open>
  The first statement of \<open>sort_into_folders\<close> (line 175), of
  \<open>create_text_file_with_removed_images\<close> (line 186) and of \<open>create_zip_from_directory\<close>
  (line 194) evaluates \<open>Path(...)\<close>. Each function therefore raises before it creates a
  directory or writes a file, and leaves the world as it found it; the statements
  after the first are never reached and have no counterpart here.
\<close>

definition sort_into_folders ::
  "path \<Rightarrow> string \<Rightarrow> ndarray option \<Rightarrow> string \<Rightarrow> ndarray option \<Rightarrow> string \<Rightarrow> world
     \<Rightarrow> (error + unit) \<times> world" where
  "sort_into_folders output_base_dir name_folder raw_image_cv raw_image_name
       realsense_image_cv realsense_image_name w = (Inl (NameError ''Path''), w)"

definition create_text_file_with_removed_images ::
  "path \<Rightarrow> (string \<times> string) list \<Rightarrow> world \<Rightarrow> (error + unit) \<times> world" where
  "create_text_file_with_removed_images output_base_dir removed_images_log w =
     (Inl (NameError ''Path''), w)"

definition create_zip_from_directory ::
  "string \<Rightarrow> string \<Rightarrow> world \<Rightarrow> (error + string) \<times> world" where
  "create_zip_from_directory directory_path_str job_id w = (Inl (NameError ''Path''), w)"

subsection \<open>Frame-pair evaluator: \<open>load_and_process_frame_pair\<close>\<close>

record bw_filter_params =
  black_thresh :: int
  white_thresh :: int
  percentage_thresh :: real

text \<open>
  Stage 3 (lines 245-260): the classification name, or the exception that
  \<open>patternThresholding\<close> lets through. Python's \<open>if best_match_name:\<close> is false for
  \<open>None\<close> and for the empty string.
\<close>

definition classification ::
  "('k, 'd) cv_env \<Rightarrow> ndarray option \<Rightarrow> (ndarray option \<times> string) list \<Rightarrow> bool \<Rightarrow> int
     \<Rightarrow> error + string" where
  "classification env realsense_frame_cv loaded_pattern_images_data run_pattern_matching
       pattern_match_sift_distance_thresh =
     (if run_pattern_matching then
        (if loaded_pattern_images_data = [] then Inr ''No_Patterns_Available''
         else
           (case patternThresholding env realsense_frame_cv loaded_pattern_images_data
                   pattern_match_sift_distance_thresh of
              Inl e \<Rightarrow> Inl e
            | Inr None \<Rightarrow> Inr ''No_Pattern_Match''
            | Inr (Some best_match_name) \<Rightarrow>
                if best_match_name = [] then Inr ''No_Pattern_Match''
                else Inr best_match_name))
      else Inr ''Uncategorized'')"

text \<open>The function returns \<open>(bool_accepted, reason_or_category_name)\<close>.\<close>

text \<open>
  The function is written to return \<open>(bool_accepted, reason_or_category_name)\<close>. The
  two rejections return before line 263; a pair that no stage rejects reaches the
  call of \<open>sort_into_folders\<close> there, and the \<open>return True, classification_name\<close> of
  line 264 comes only after that call.
\<close>

definition load_and_process_frame_pair ::
  "('k, 'd) cv_env \<Rightarrow> ndarray option \<Rightarrow> string \<Rightarrow> ndarray option \<Rightarrow> string
     \<Rightarrow> (ndarray option \<times> string) list \<Rightarrow> path \<Rightarrow> bool \<Rightarrow> bool \<Rightarrow> bool
     \<Rightarrow> bw_filter_params \<Rightarrow> string \<Rightarrow> int \<Rightarrow> world \<Rightarrow> (error + (bool \<times> string)) \<times> world" where
  "load_and_process_frame_pair env raw_frame_cv raw_frame_name realsense_frame_cv
       realsense_frame_name loaded_pattern_images_data output_base_dir_for_accepted
       run_solid_color_check run_object_detection run_pattern_matching
       bw_params obj_detect_prompt pattern_match_sift_distance_thresh w =
     (case (if run_solid_color_check
            then is_mostly_black_or_white env realsense_frame_cv (black_thresh bw_params)
                   (white_thresh bw_params) (percentage_thresh bw_params)
            else Inr False) of
        Inl e \<Rightarrow> (Inl e, w)
      | Inr True \<Rightarrow> (Inr (False, ''Rejected: Mostly black or white''), w)
      | Inr False \<Rightarrow>
          (case (if run_object_detection
                 then modelObjectDetection env raw_frame_cv obj_detect_prompt w
                 else ((False, []), w)) of
             ((True, model_reason), w1) \<Rightarrow>
               (Inr (False, ''Rejected: Man-made objects detected (''
                              @ take 50 model_reason @ ''...)''), w1)
           | ((False, model_reason), w1) \<Rightarrow>
               (case classification env realsense_frame_cv loaded_pattern_images_data
                       run_pattern_matching pattern_match_sift_distance_thresh of
                  Inl e \<Rightarrow> (Inl e, w1)
                | Inr classification_name \<Rightarrow>
                    (case sort_into_folders output_base_dir_for_accepted
                            classification_name raw_frame_cv raw_frame_name
                            realsense_frame_cv realsense_frame_name w1 of
                       (Inl e, w2) \<Rightarrow> (Inl e, w2)
                     | (Inr u, w2) \<Rightarrow> (Inr (True, classification_name), w2)))))"

subsection \<open>Video pair walker and archiver: \<open>process_video_frames\<close>\<close>

text \<open>The two configuration dictionaries; a key that is absent is \<open>None\<close>.\<close>

record thres_params =
  black_threshold_bw :: "int option"
  white_threshold_bw :: "int option"
  solid_color_detection_value :: "real option"
  object_detection_prompt :: "string option"
  pattern_thresholding_value :: "int option"

record pipeline_processes_config =
  solid_color_detection :: "bool option"
  model_object_detection :: "bool option"
  pattern_thresholding :: "bool option"

text \<open>
  The function is written to return \<open>(processed_frame_count, zip_file_name)\<close>. Its
  first statement is a call of the logger (line 281); its second (line 290) assigns
  the value of \<open>Path\<close> applied to the string \<open>pipeline_output\<close> to
  \<open>PIPELINE_OUTPUT_ROOT\<close>, and raises \<open>NameError\<close>. Nothing encloses it in a \<open>try\<close>, so every call
  ends there, whatever its arguments: before the output directory is looked at,
  removed or created (lines 291-295), before a reference image is read (lines
  298-314), before either video is opened (lines 317-318), before the loop over the
  frame pairs (lines 343-372) and before the log file and the archive are written
  (lines 379-387). Those lines are never reached and have no counterpart here.
\<close>

definition process_video_frames ::
  "string \<Rightarrow> string \<Rightarrow> string \<Rightarrow> string list \<Rightarrow> thres_params \<Rightarrow> pipeline_processes_config
     \<Rightarrow> world \<Rightarrow> (error + (nat \<times> string option)) \<times> world" where
  "process_video_frames job_id path_to_raw_video path_to_realsense_video
       pattern_image_paths thres pipeline_config w = (Inl (NameError ''Path''), w)"

section \<open>Notions the theorems are stated with\<close>

text \<open>The fraction of the pixels of an image that satisfy \<open>P\<close>.\<close>

definition fraction_where :: "(8 word \<Rightarrow> bool) \<Rightarrow> ndarray \<Rightarrow> real" where
  "fraction_where P a = real (length (filter P (elems a))) / real (length (elems a))"

text \<open>
  The descriptors the query image yields (lines 117-127), \<open>None\<close> when feature
  extraction raises or finds no keypoint or no descriptor.
\<close>

definition query_features :: "('k, 'd) cv_env \<Rightarrow> ndarray \<Rightarrow> 'd option" where
  "query_features env test_img_gray =
     (case detectAndCompute env test_img_gray of
        Inl e \<Rightarrow> None
      | Inr (test_keypoints, test_descriptors) \<Rightarrow>
          (case (test_descriptors, test_keypoints) of
             (Some td, Some tk) \<Rightarrow> if tk = [] then None else Some td
           | _ \<Rightarrow> None))"

text \<open>
  The good-match count of a reference: the number of its correspondences with the
  query whose distance is strictly below the cutoff. A reference the loop skips (no
  image, no features, an error of the extractor or the matcher) has count 0.
\<close>

definition good_match_count ::
  "('k, 'd) cv_env \<Rightarrow> 'd \<Rightarrow> int \<Rightarrow> ndarray option \<times> string \<Rightarrow> nat" where
  "good_match_count env test_descriptors cutoff pattern =
     (case fst pattern of
        None \<Rightarrow> 0
      | Some pimg \<Rightarrow>
          (case query_features env pimg of
             None \<Rightarrow> 0
           | Some pd \<Rightarrow>
               (case bf_match env test_descriptors pd of
                  Inl e \<Rightarrow> 0
                | Inr matches \<Rightarrow>
                    length (filter (\<lambda>m. m < real_of_int cutoff) matches))))"

text \<open>
  A string contains a pattern, case ignored, when some stretch of it equals the
  pattern once both are put in lower case.
\<close>

definition contains_ignoring_case :: "string \<Rightarrow> string \<Rightarrow> bool" where
  "contains_ignoring_case pat s =
     (\<exists>before mid after. s = before @ mid @ after
        \<and> map ascii_lower mid = map ascii_lower pat)"
subsection \<open>A small environment for concrete runs\<close>

text \<open>
  The theorems hold for every environment. To run the functions on concrete inputs the
  capabilities are given simple stand-ins: the grey value of a BGR pixel is its green
  channel, and an empty image or one without three channels is rejected, as OpenCV's
  \<open>cvtColor\<close> rejects them (it asserts that its source is not empty); every
  non-zero grey value is a keypoint with itself as descriptor; the matcher pairs the
  descriptors in order, the distance being the difference of the values; the division
  is the exact one; the encoding of a frame is its bytes, and an empty frame is not
  encoded; the model's answer depends on the first byte it is sent.
\<close>

fun green_channel :: "8 word list \<Rightarrow> 8 word list" where
  "green_channel (b # g # r # rest) = g # green_channel rest"
| "green_channel rest = []"

definition gray_frame :: ndarray where
  "gray_frame = \<lparr>shape = [1, 2, 3], elems = [128, 128, 128, 128, 128, 128]\<rparr>"

definition white_frame :: ndarray where
  "white_frame = \<lparr>shape = [1, 2, 3], elems = [255, 255, 255, 255, 255, 255]\<rparr>"

definition fence_frame :: ndarray where
  "fence_frame = \<lparr>shape = [1, 2, 3], elems = [1, 90, 100, 110, 120, 130]\<rparr>"

definition broken_frame :: ndarray where
  "broken_frame = \<lparr>shape = [1, 2, 3], elems = [2, 90, 100, 110, 120, 130]\<rparr>"

definition leaf_frame :: ndarray where
  "leaf_frame = \<lparr>shape = [1, 2, 3], elems = [10, 200, 30, 40, 100, 60]\<rparr>"

definition leaf_gray :: ndarray where
  "leaf_gray = \<lparr>shape = [1, 2], elems = [200, 100]\<rparr>"

definition fern_gray :: ndarray where
  "fern_gray = \<lparr>shape = [1, 2], elems = [190, 110]\<rparr>"

definition dark_frame :: ndarray where
  "dark_frame = \<lparr>shape = [1, 2, 3], elems = [5, 0, 5, 5, 0, 5]\<rparr>"

definition empty_color_image :: ndarray where
  "empty_color_image = \<lparr>shape = [0, 0, 3], elems = []\<rparr>"


definition black_gray_image :: ndarray where
  "black_gray_image = \<lparr>shape = [2, 2], elems = [10, 20, 30, 200]\<rparr>"

definition stub_env :: "(8 word, 8 word list) cv_env" where
  "stub_env =
     \<lparr>cvtColor =
        (\<lambda>a. if 0 < array_size a \<and> length (shape a) = 3 \<and> last (shape a) = 3
             then Inr \<lparr>shape = butlast (shape a), elems = green_channel (elems a)\<rparr>
             else Inl CvError),
      detectAndCompute =
        (\<lambda>a. case filter (\<lambda>v. v \<noteq> 0) (elems a) of
               [] \<Rightarrow> Inr (Some [], None)
             | vs \<Rightarrow> Inr (Some vs, Some vs)),
      bf_match = (\<lambda>q t. Inr (map (\<lambda>(x, y). real_of_int \<bar>uint x - uint y\<bar>) (zip q t))),
      true_divide = (\<lambda>a b. real a / real b),
      imencode = (\<lambda>frame. if 0 < array_size frame then Inr (elems frame)
                          else Inl ''could not encode an empty image''),
      ollama_chat =
        (\<lambda>image_bytes prompt.
           if take 1 image_bytes = [1] then Inr ''True: a fence crosses the scene''
           else if take 1 image_bytes = [2] then Inl ''connection refused''
           else Inr ''FALSE - only vegetation'')\<rparr>"

definition default_bw :: bw_filter_params where
  "default_bw = \<lparr>black_thresh = 30, white_thresh = 225, percentage_thresh = 60 / 100\<rparr>"

definition all_stages :: pipeline_processes_config where
  "all_stages =
     \<lparr>solid_color_detection = Some True, model_object_detection = Some True,
      pattern_thresholding = Some True\<rparr>"

definition default_thresholds :: thres_params where
  "default_thresholds =
     \<lparr>black_threshold_bw = None, white_threshold_bw = None,
      solid_color_detection_value = None, object_detection_prompt = None,
      pattern_thresholding_value = None\<rparr>"

text \<open>A world in which job \<open>j1\<close> has left one accepted image.\<close>

definition old_world :: world where
  "old_world =
     \<lparr>fs =
        [([''pipeline_output''], Dir),
         ([''pipeline_output'', ''j1''], Dir),
         ([''pipeline_output'', ''j1'', ''Accepted_images''], Dir),
         ([''pipeline_output'', ''j1'', ''Accepted_images'', ''Uncategorized''], Dir),
         ([''pipeline_output'', ''j1'', ''Accepted_images'', ''Uncategorized'', ''raw''], Dir),
         ([''pipeline_output'', ''j1'', ''Accepted_images'', ''Uncategorized'', ''raw'',
           ''raw_frame_00000.png''], File (Png gray_frame)),
         ([''uploads''], Dir)],
      requests = []\<rparr>"

definition empty_world :: world where
  "empty_world = \<lparr>fs = [], requests = []\<rparr>"

section \<open>Theorems\<close>

subsection \<open>Solid-frame detector\<close>

text \<open>
  Let the image, after the grey conversion of lines 32-34, be the well-formed array
  \<open>gray\<close>, and let the float division give the exact quotient rounded by a monotone
  \<open>rnd\<close> that leaves the fraction cutoff (itself a float) and zero as they are. Then
  \<open>is_mostly_black_or_white\<close> returns true exactly when \<open>gray\<close> has pixels and the
  rounded fraction of them with intensity at most the black cutoff, or the rounded
  fraction with intensity at least the white cutoff, reaches the fraction cutoff. So
  it returns true whenever one of the two exact fractions reaches the cutoff: an image
  with 60 percent of its pixels at or below 30, or at or above 225, gives true under
  the default cutoffs. An image all of whose pixels lie strictly between the two
  intensity cutoffs gives false for any positive fraction cutoff. For \<open>None\<close>, and for
  an image whose grey form has no pixels, the function returns false.
\<close>

theorem is_mostly_black_or_white_fractions:
  assumes gray: "to_gray env img = Inr gray" and wf: "well_formed gray"
    and div: "\<forall>a b. true_divide env a b = rnd (real a / real b)"
    and mono: "mono rnd" and cutoff: "rnd fraction = fraction" and zero: "rnd 0 = 0"
  shows "is_mostly_black_or_white env None black white fraction = Inr False
       \<and> is_mostly_black_or_white env (Some img) black white fraction =
           Inr (elems gray \<noteq> []
                \<and> (fraction \<le> rnd (fraction_where (\<lambda>v. uint v \<le> black) gray)
                    \<or> fraction \<le> rnd (fraction_where (\<lambda>v. white \<le> uint v) gray)))
       \<and> (elems gray \<noteq> []
              \<and> (fraction \<le> fraction_where (\<lambda>v. uint v \<le> black) gray
                  \<or> fraction \<le> fraction_where (\<lambda>v. white \<le> uint v) gray)
            \<longrightarrow> is_mostly_black_or_white env (Some img) black white fraction = Inr True)
       \<and> (array_size gray = 0
            \<longrightarrow> is_mostly_black_or_white env (Some img) black white fraction = Inr False)
       \<and> (elems gray \<noteq> [] \<and> (\<forall>v \<in> set (elems gray). black < uint v \<and> uint v < white)
              \<and> 0 < fraction
            \<longrightarrow> is_mostly_black_or_white env (Some img) black white fraction = Inr False)"
proof -
  have none: "is_mostly_black_or_white env None black white fraction = Inr False"
    by (simp add: is_mostly_black_or_white_def)
  have main: "is_mostly_black_or_white env (Some img) black white fraction =
           Inr (elems gray \<noteq> []
                \<and> (fraction \<le> rnd (fraction_where (\<lambda>v. uint v \<le> black) gray)
                    \<or> fraction \<le> rnd (fraction_where (\<lambda>v. white \<le> uint v) gray)))"
    using gray wf div
    by (auto simp: is_mostly_black_or_white_def well_formed_def fraction_where_def
                   count_le_def count_ge_def Let_def)
  have up: "fraction \<le> rnd x" if "fraction \<le> x" for x
  proof -
    from mono that have "rnd fraction \<le> rnd x" by (rule monoD)
    with cutoff show ?thesis by simp
  qed
  have above: "is_mostly_black_or_white env (Some img) black white fraction = Inr True"
    if "elems gray \<noteq> []"
       "fraction \<le> fraction_where (\<lambda>v. uint v \<le> black) gray
        \<or> fraction \<le> fraction_where (\<lambda>v. white \<le> uint v) gray"
    using that up unfolding main by blast
  have empty: "is_mostly_black_or_white env (Some img) black white fraction = Inr False"
    if "array_size gray = 0"
    using that gray by (simp add: is_mostly_black_or_white_def)
  have mid: "is_mostly_black_or_white env (Some img) black white fraction = Inr False"
    if "elems gray \<noteq> []" "\<forall>v \<in> set (elems gray). black < uint v \<and> uint v < white"
       "0 < fraction"
  proof -
    from that(2) have "filter (\<lambda>v. uint v \<le> black) (elems gray) = []"
      "filter (\<lambda>v. white \<le> uint v) (elems gray) = []"
      by (auto simp: filter_empty_conv)
    with that(3) zero show ?thesis
      unfolding main by (simp add: fraction_where_def)
  qed
  from none main above empty mid show ?thesis by blast
qed

text \<open>
  A white colour frame, a grey-scale image with three dark pixels of four, a mid-grey
  colour frame and an image of shape \<open>(0, 0)\<close>, under the default cutoffs.
\<close>

theorem is_mostly_black_or_white_fractions_witness:
  "to_gray stub_env white_frame = Inr \<lparr>shape = [1, 2], elems = [255, 255]\<rparr>
   \<and> well_formed \<lparr>shape = [1, 2], elems = [255, 255]\<rparr>
   \<and> (\<forall>a b. true_divide stub_env a b = id (real a / real b))
   \<and> mono (id :: real \<Rightarrow> real)
   \<and> is_mostly_black_or_white stub_env (Some white_frame) 30 225 (60 / 100) = Inr True
   \<and> to_gray stub_env black_gray_image = Inr black_gray_image
   \<and> well_formed black_gray_image
   \<and> fraction_where (\<lambda>v. uint v \<le> 30) black_gray_image = 3 / 4
   \<and> is_mostly_black_or_white stub_env (Some black_gray_image) 30 225 (60 / 100) = Inr True
   \<and> to_gray stub_env gray_frame = Inr \<lparr>shape = [1, 2], elems = [128, 128]\<rparr>
   \<and> is_mostly_black_or_white stub_env (Some gray_frame) 30 225 (60 / 100) = Inr False
   \<and> is_mostly_black_or_white stub_env (Some \<lparr>shape = [0, 0], elems = []\<rparr>) 30 225 (60 / 100)
       = Inr False"
proof -
  let ?w = "\<lparr>shape = [1, 2], elems = [255, 255]\<rparr>"
  let ?g = "\<lparr>shape = [1, 2], elems = [128, 128]\<rparr>"
  let ?e = "\<lparr>shape = [0, 0], elems = []\<rparr>"
  have w: "to_gray stub_env white_frame = Inr ?w" by code_simp
  have wwf: "well_formed ?w" by code_simp
  have d: "\<forall>a b. true_divide stub_env a b = id (real a / real b)"
    by (simp add: stub_env_def)
  have m: "mono (id :: real \<Rightarrow> real)" by (simp add: mono_def)
  have b: "to_gray stub_env black_gray_image = Inr black_gray_image" by code_simp
  have bwf: "well_formed black_gray_image" by code_simp
  have bfrac: "fraction_where (\<lambda>v. uint v \<le> 30) black_gray_image = 3 / 4"
    by (simp add: fraction_where_def black_gray_image_def)
  have wfrac: "fraction_where (\<lambda>v. 225 \<le> uint v) ?w = 1"
    by (simp add: fraction_where_def)
  have g: "to_gray stub_env gray_frame = Inr ?g" by code_simp
  have gwf: "well_formed ?g" by code_simp
  have e: "to_gray stub_env ?e = Inr ?e" by code_simp
  have ewf: "well_formed ?e" by code_simp
  from is_mostly_black_or_white_fractions
         [OF w wwf d m, where black = 30 and white = 225 and fraction = "60 / 100",
          THEN conjunct2, THEN conjunct2, THEN conjunct1] wfrac
  have 1: "is_mostly_black_or_white stub_env (Some white_frame) 30 225 (60 / 100) = Inr True"
    by simp
  from is_mostly_black_or_white_fractions
         [OF b bwf d m, where black = 30 and white = 225 and fraction = "60 / 100",
          THEN conjunct2, THEN conjunct2, THEN conjunct1] bfrac
  have 2: "is_mostly_black_or_white stub_env (Some black_gray_image) 30 225 (60 / 100)
             = Inr True"
    by (simp add: black_gray_image_def)
  from is_mostly_black_or_white_fractions
         [OF g gwf d m, where black = 30 and white = 225 and fraction = "60 / 100",
          THEN conjunct2, THEN conjunct2, THEN conjunct2, THEN conjunct2]
  have 3: "is_mostly_black_or_white stub_env (Some gray_frame) 30 225 (60 / 100) = Inr False"
    by simp
  from is_mostly_black_or_white_fractions
         [OF e ewf d m, where black = 30 and white = 225 and fraction = "60 / 100",
          THEN conjunct2, THEN conjunct2, THEN conjunct2, THEN conjunct1]
  have 4: "is_mostly_black_or_white stub_env (Some ?e) 30 225 (60 / 100) = Inr False"
    by (simp add: array_size_def)
  from w wwf d m b bwf bfrac g 1 2 3 4 show ?thesis by blast
qed

text \<open>
  The grey conversion of an array with three axes comes before the test for zero
  pixels (lines 33-37) and is not guarded: an exception of \<open>cvtColor\<close> there is passed
  on to the caller.
\<close>

theorem grey_conversion_error_passed_on:
  assumes "length (shape img) = 3" "cvtColor env img = Inl e"
  shows "is_mostly_black_or_white env (Some img) black white fraction = Inl e"
  using assms by (simp add: is_mostly_black_or_white_def to_gray_def)

theorem grey_conversion_error_passed_on_witness:
  "length (shape empty_color_image) = 3 \<and> array_size empty_color_image = 0
   \<and> cvtColor stub_env empty_color_image = Inl CvError
   \<and> is_mostly_black_or_white stub_env (Some empty_color_image) 30 225 (60 / 100)
       = Inl CvError"
proof -
  have 1: "length (shape empty_color_image) = 3" by code_simp
  have 2: "cvtColor stub_env empty_color_image = Inl CvError" by code_simp
  have 3: "array_size empty_color_image = 0" by code_simp
  from grey_conversion_error_passed_on [OF 1 2] 1 2 3 show ?thesis by simp
qed

text \<open>
  C5. The function returns false for \<open>None\<close> and for an image whose grey form has no
  pixels, as shown above, but not for every image without pixels: a colour image of
  shape \<open>(0, 0, 3)\<close> reaches \<open>cvtColor\<close> before the zero-pixel guard, and as \<open>cvtColor\<close>
  rejects an empty source the function raises instead of returning false. The same
  image without the channel axis, of shape \<open>(0, 0)\<close>, is caught by the guard.
\<close>

theorem zero_pixel_colour_image_raises:
  "array_size empty_color_image = 0
   \<and> length (shape empty_color_image) = 3
   \<and> cvtColor stub_env empty_color_image = Inl CvError
   \<and> is_mostly_black_or_white stub_env (Some empty_color_image) 30 225 (60 / 100)
       = Inl CvError
   \<and> is_mostly_black_or_white stub_env (Some \<lparr>shape = [0, 0], elems = []\<rparr>) 30 225 (60 / 100)
       = Inr False"
  by code_simp

subsection \<open>Scene-content classifier\<close>

lemma match_here_iff:
  "match_here pat s \<longleftrightarrow> (\<exists>mid after. s = mid @ after \<and> map ascii_lower mid = map ascii_lower pat)"
proof (induction pat s rule: match_here.induct)
  case (1 s)
  then show ?case by simp
next
  case (2 p ps)
  then show ?case by simp
next
  case (3 p ps c cs)
  show ?case
  proof
    assume "match_here (p # ps) (c # cs)"
    with 3 obtain mid after where "cs = mid @ after" "map ascii_lower mid = map ascii_lower ps"
      and "ascii_lower p = ascii_lower c" by auto
    then have "c # cs = (c # mid) @ after \<and> map ascii_lower (c # mid) = map ascii_lower (p # ps)"
      by simp
    then show "\<exists>mid after. c # cs = mid @ after \<and> map ascii_lower mid = map ascii_lower (p # ps)"
      by blast
  next
    assume "\<exists>mid after. c # cs = mid @ after \<and> map ascii_lower mid = map ascii_lower (p # ps)"
    then obtain mid after where m: "c # cs = mid @ after" "map ascii_lower mid = map ascii_lower (p # ps)"
      by blast
    from m(2) obtain m0 mid' where mid: "mid = m0 # mid'" by (cases mid) auto
    with m have "c = m0" "cs = mid' @ after" "ascii_lower m0 = ascii_lower p"
      "map ascii_lower mid' = map ascii_lower ps" by auto
    with 3 show "match_here (p # ps) (c # cs)" by auto
  qed
qed

lemma re_search_ignorecase_iff:
  "re_search_ignorecase pat s \<longleftrightarrow> contains_ignoring_case pat s"
proof (induction s)
  case Nil
  show ?case by (auto simp: match_here_iff contains_ignoring_case_def)
next
  case (Cons c cs)
  show ?case
  proof
    assume "re_search_ignorecase pat (c # cs)"
    then consider "match_here pat (c # cs)" | "contains_ignoring_case pat cs"
      using Cons by auto
    then show "contains_ignoring_case pat (c # cs)"
    proof cases
      case 1
      then obtain mid after where "c # cs = [] @ mid @ after" "map ascii_lower mid = map ascii_lower pat"
        by (auto simp: match_here_iff)
      then show ?thesis unfolding contains_ignoring_case_def by blast
    next
      case 2
      then obtain before mid after where "cs = before @ mid @ after"
        "map ascii_lower mid = map ascii_lower pat"
        by (auto simp: contains_ignoring_case_def)
      then have "c # cs = (c # before) @ mid @ after \<and> map ascii_lower mid = map ascii_lower pat"
        by simp
      then show ?thesis unfolding contains_ignoring_case_def by blast
    qed
  next
    assume "contains_ignoring_case pat (c # cs)"
    then obtain before mid after where s: "c # cs = before @ mid @ after"
      and m: "map ascii_lower mid = map ascii_lower pat"
      by (auto simp: contains_ignoring_case_def)
    show "re_search_ignorecase pat (c # cs)"
    proof (cases before)
      case Nil
      with s m have "match_here pat (c # cs)" by (auto simp: match_here_iff)
      then show ?thesis by simp
    next
      case (Cons b bs)
      with s have "cs = bs @ mid @ after" by simp
      with m have "contains_ignoring_case pat cs" unfolding contains_ignoring_case_def by blast
      with Cons.IH show ?thesis by simp
    qed
  qed
qed

text \<open>
  C6 (as amended). \<open>modelObjectDetection\<close> reports \<open>objects_detected = False\<close> exactly
  when the call of the model returns and its response contains \<open>False\<close>, case ignored;
  the text it returns is then the response. When the call fails, it reports true and
  returns the fixed text \<open>Error in model processing.\<close>: the text of the exception is
  logged, not returned. For a frame that is \<open>None\<close> it reports true with a fixed text
  and sends no request.
\<close>

theorem modelObjectDetection_contract:
  "(fst (fst (modelObjectDetection env frame_cv prompt w)) = False
      \<longleftrightarrow> (\<exists>frame content. frame_cv = Some frame \<and> chat env frame prompt = Inr content
                \<and> contains_ignoring_case ''False'' content))
   \<and> (\<forall>frame content. frame_cv = Some frame \<and> chat env frame prompt = Inr content
          \<longrightarrow> snd (fst (modelObjectDetection env frame_cv prompt w)) = content)
   \<and> (\<forall>frame e. frame_cv = Some frame \<and> chat env frame prompt = Inl e
          \<longrightarrow> fst (modelObjectDetection env frame_cv prompt w)
                = (True, ''Error in model processing.''))
   \<and> (frame_cv = None
          \<longrightarrow> modelObjectDetection env frame_cv prompt w
                = ((True, ''Error: Input frame was None.''), w))"
proof (cases frame_cv)
  case None
  then show ?thesis by (simp add: modelObjectDetection_def)
next
  case (Some frame)
  show ?thesis
  proof (cases "imencode env frame")
    case (Inl msg)
    with Some show ?thesis by (simp add: modelObjectDetection_def chat_def)
  next
    case enc: (Inr image_bytes)
    show ?thesis
    proof (cases "ollama_chat env image_bytes prompt")
      case (Inl msg)
      with Some enc show ?thesis by (simp add: modelObjectDetection_def chat_def Let_def)
    next
      case (Inr content)
      with Some enc show ?thesis
        by (simp add: modelObjectDetection_def chat_def Let_def re_search_ignorecase_iff)
    qed
  qed
qed

theorem modelObjectDetection_contract_witness:
  "chat stub_env gray_frame ''Any fence?'' = Inr ''FALSE - only vegetation''
   \<and> contains_ignoring_case ''False'' ''FALSE - only vegetation''
   \<and> fst (modelObjectDetection stub_env (Some gray_frame) ''Any fence?'' empty_world)
       = (False, ''FALSE - only vegetation'')
   \<and> chat stub_env broken_frame ''Any fence?'' = Inl ''connection refused''
   \<and> fst (modelObjectDetection stub_env (Some broken_frame) ''Any fence?'' empty_world)
       = (True, ''Error in model processing.'')"
proof -
  have ok: "chat stub_env gray_frame ''Any fence?'' = Inr ''FALSE - only vegetation''"
    by code_simp
  have bad: "chat stub_env broken_frame ''Any fence?'' = Inl ''connection refused''"
    by code_simp
  have c: "contains_ignoring_case ''False'' ''FALSE - only vegetation''"
    unfolding re_search_ignorecase_iff [symmetric] by code_simp
  note inst = modelObjectDetection_contract
    [where env = stub_env and prompt = "''Any fence?''" and w = empty_world]
  from inst [where frame_cv = "Some gray_frame"] ok c
  have 1: "fst (modelObjectDetection stub_env (Some gray_frame) ''Any fence?'' empty_world)
             = (False, ''FALSE - only vegetation'')"
    by (cases "modelObjectDetection stub_env (Some gray_frame) ''Any fence?'' empty_world") auto
  from inst [where frame_cv = "Some broken_frame"] bad
  have 2: "fst (modelObjectDetection stub_env (Some broken_frame) ''Any fence?'' empty_world)
             = (True, ''Error in model processing.'')"
    by blast
  from ok bad c 1 2 show ?thesis by blast
qed

text \<open>
  C6 as stated fails in its last part: the call below fails with the text
  \<open>connection refused\<close>, and the text returned is another.
\<close>

theorem error_text_not_surfaced_counterexample:
  "chat stub_env broken_frame ''Any fence?'' = Inl ''connection refused''
   \<and> modelObjectDetection stub_env (Some broken_frame) ''Any fence?'' empty_world
       = ((True, ''Error in model processing.''),
          \<lparr>fs = [], requests = [(broken_frame, ''Any fence?'')]\<rparr>)
   \<and> ''Error in model processing.'' \<noteq> ''connection refused''"
  by code_simp

subsection \<open>Pattern matcher\<close>

lemma length_good_matches:
  "length (good_matches cutoff ms) = length (filter (\<lambda>m. m < real_of_int cutoff) ms)"
  by (simp add: good_matches_def filter_sort)

lemma set_good_matches:
  "m \<in> set (good_matches cutoff ms) \<longleftrightarrow> m \<in> set ms \<and> m < real_of_int cutoff"
  by (auto simp: good_matches_def)

lemma scan_pattern_count:
  "scan_pattern env td cutoff (best, mx) pattern =
     (if good_match_count env td cutoff pattern > mx
      then (Some (snd pattern), good_match_count env td cutoff pattern)
      else (best, mx))"
  by (cases pattern)
     (auto simp: scan_pattern_def good_match_count_def query_features_def Let_def
                 length_good_matches
           split: option.splits sum.splits prod.splits)

lemma foldl_scan_pattern:
  assumes "foldl (scan_pattern env td cutoff) (best, mx) pats = (best', mx')"
  shows "(best' = best \<and> mx' = mx \<and> (\<forall>j < length pats. good_match_count env td cutoff (pats ! j) \<le> mx))
       \<or> (\<exists>i < length pats. best' = Some (snd (pats ! i))
             \<and> mx' = good_match_count env td cutoff (pats ! i) \<and> mx < mx'
             \<and> (\<forall>j < i. good_match_count env td cutoff (pats ! j) < mx')
             \<and> (\<forall>j < length pats. good_match_count env td cutoff (pats ! j) \<le> mx'))"
  using assms
proof (induction pats arbitrary: best mx)
  case Nil
  then show ?case by simp
next
  case (Cons p pats)
  let ?c = "good_match_count env td cutoff"
  show ?case
  proof (cases "?c p > mx")
    case True
    with Cons.prems have "foldl (scan_pattern env td cutoff) (Some (snd p), ?c p) pats = (best', mx')"
      by (simp add: scan_pattern_count)
    from Cons.IH [OF this] show ?thesis
    proof (elim disjE exE conjE)
      assume same: "best' = Some (snd p)" "mx' = ?c p"
        and le: "\<forall>j < length pats. ?c (pats ! j) \<le> ?c p"
      have "\<forall>j < length (p # pats). ?c ((p # pats) ! j) \<le> mx'"
        using same le by (auto simp: nth_Cons split: nat.splits)
      with same True show ?thesis
        by (intro disjI2 exI [of _ 0]) simp
    next
      fix i
      assume i: "i < length pats" "best' = Some (snd (pats ! i))" "mx' = ?c (pats ! i)"
        "?c p < mx'" "\<forall>j < i. ?c (pats ! j) < mx'" "\<forall>j < length pats. ?c (pats ! j) \<le> mx'"
      have "\<forall>j < Suc i. ?c ((p # pats) ! j) < mx'"
        using i by (auto simp: nth_Cons split: nat.splits)
      moreover have "\<forall>j < length (p # pats). ?c ((p # pats) ! j) \<le> mx'"
        using i by (auto simp: nth_Cons split: nat.splits)
      ultimately show ?thesis
        using i True by (intro disjI2 exI [of _ "Suc i"]) simp
    qed
  next
    case False
    with Cons.prems have "foldl (scan_pattern env td cutoff) (best, mx) pats = (best', mx')"
      by (simp add: scan_pattern_count)
    from Cons.IH [OF this] show ?thesis
    proof (elim disjE exE conjE)
      assume same: "best' = best" "mx' = mx"
        and le: "\<forall>j < length pats. ?c (pats ! j) \<le> mx"
      have "\<forall>j < length (p # pats). ?c ((p # pats) ! j) \<le> mx"
        using le False by (auto simp: nth_Cons split: nat.splits)
      with same show ?thesis by simp
    next
      fix i
      assume i: "i < length pats" "best' = Some (snd (pats ! i))" "mx' = ?c (pats ! i)"
        "mx < mx'" "\<forall>j < i. ?c (pats ! j) < mx'" "\<forall>j < length pats. ?c (pats ! j) \<le> mx'"
      have "\<forall>j < Suc i. ?c ((p # pats) ! j) < mx'"
        using i False by (auto simp: nth_Cons split: nat.splits)
      moreover have "\<forall>j < length (p # pats). ?c ((p # pats) ! j) \<le> mx'"
        using i False by (auto simp: nth_Cons split: nat.splits)
      ultimately show ?thesis
        using i by (intro disjI2 exI [of _ "Suc i"]) simp
    qed
  qed
qed

lemma patternThresholding_None [simp]:
  "patternThresholding env None pats cutoff = Inr None"
  by (simp add: patternThresholding_def)

lemma patternThresholding_no_features:
  assumes "to_gray env img = Inr g" "query_features env g = None"
  shows "patternThresholding env (Some img) pats cutoff = Inr None"
  using assms
  by (auto simp: patternThresholding_def query_features_def
           split: sum.splits option.splits prod.splits if_splits)

lemma patternThresholding_features:
  assumes "to_gray env img = Inr g" "query_features env g = Some td"
  shows "patternThresholding env (Some img) pats cutoff =
           (case foldl (scan_pattern env td cutoff) (None, 0) pats of
              (best_match_name, max_good_matches) \<Rightarrow>
                Inr (if max_good_matches > 0 then best_match_name
                     else Some ''No_Pattern_Match''))"
  using assms
  by (auto simp: patternThresholding_def query_features_def
           split: sum.splits option.splits prod.splits if_splits)

text \<open>The outcome of the scan, for a query with features.\<close>

lemma patternThresholding_scan:
  assumes gray: "to_gray env img = Inr g" and td: "query_features env g = Some td"
  shows "((\<forall>j < length pats. good_match_count env td cutoff (pats ! j) = 0)
            \<and> patternThresholding env (Some img) pats cutoff = Inr (Some ''No_Pattern_Match''))
       \<or> (\<exists>i < length pats. 0 < good_match_count env td cutoff (pats ! i)
             \<and> (\<forall>j < i. good_match_count env td cutoff (pats ! j)
                          < good_match_count env td cutoff (pats ! i))
             \<and> (\<forall>j < length pats. good_match_count env td cutoff (pats ! j)
                          \<le> good_match_count env td cutoff (pats ! i))
             \<and> patternThresholding env (Some img) pats cutoff = Inr (Some (snd (pats ! i))))"
proof -
  obtain best' mx' where f: "foldl (scan_pattern env td cutoff) (None, 0) pats = (best', mx')"
    by (metis prod.exhaust)
  from foldl_scan_pattern [OF f] show ?thesis
  proof (elim disjE exE conjE)
    assume "best' = None" "mx' = 0"
      "\<forall>j < length pats. good_match_count env td cutoff (pats ! j) \<le> 0"
    with f show ?thesis
      by (simp add: patternThresholding_features [OF gray td])
  next
    fix i
    assume i: "i < length pats" "best' = Some (snd (pats ! i))"
      "mx' = good_match_count env td cutoff (pats ! i)" "0 < mx'"
      "\<forall>j < i. good_match_count env td cutoff (pats ! j) < mx'"
      "\<forall>j < length pats. good_match_count env td cutoff (pats ! j) \<le> mx'"
    with f have "patternThresholding env (Some img) pats cutoff = Inr (Some (snd (pats ! i)))"
      by (simp add: patternThresholding_features [OF gray td])
    with i show ?thesis by (intro disjI2 exI [of _ i]) simp
  qed
qed

text \<open>
  C4. A correspondence is a good match exactly when its distance is strictly below the
  cutoff, and the loop replaces the running maximum only by a strictly greater count
  of good matches. So for a query with features, the name returned is that of the
  first reference in the list whose count is the greatest, when that count is not
  zero: a later reference with the same count never takes its place.
\<close>

theorem best_pattern_first_maximum:
  assumes gray: "to_gray env img = Inr g"
    and td: "query_features env g = Some td"
    and i: "i < length pats"
    and pos: "0 < good_match_count env td cutoff (pats ! i)"
    and greatest: "\<forall>j < length pats. good_match_count env td cutoff (pats ! j)
                      \<le> good_match_count env td cutoff (pats ! i)"
    and first: "\<forall>j < i. good_match_count env td cutoff (pats ! j)
                      < good_match_count env td cutoff (pats ! i)"
  shows "patternThresholding env (Some img) pats cutoff = Inr (Some (snd (pats ! i)))
       \<and> (\<forall>acc p. scan_pattern env td cutoff acc p =
              (if good_match_count env td cutoff p > snd acc
               then (Some (snd p), good_match_count env td cutoff p) else acc))
       \<and> (\<forall>ms. set (good_matches cutoff ms) = {m \<in> set ms. m < real_of_int cutoff}
              \<and> length (good_matches cutoff ms)
                  = length (filter (\<lambda>m. m < real_of_int cutoff) ms))"
proof -
  let ?c = "good_match_count env td cutoff"
  from patternThresholding_scan [OF gray td, where cutoff = cutoff and pats = pats]
  have "patternThresholding env (Some img) pats cutoff = Inr (Some (snd (pats ! i)))"
  proof (elim disjE exE conjE)
    assume "\<forall>j < length pats. ?c (pats ! j) = 0"
    with i pos show ?thesis by auto
  next
    fix k
    assume k: "k < length pats" "0 < ?c (pats ! k)" "\<forall>j < k. ?c (pats ! j) < ?c (pats ! k)"
      "\<forall>j < length pats. ?c (pats ! j) \<le> ?c (pats ! k)"
      and res: "patternThresholding env (Some img) pats cutoff = Inr (Some (snd (pats ! k)))"
    have "k = i"
    proof (rule ccontr)
      assume "k \<noteq> i"
      then consider "k < i" | "i < k" by linarith
      then show False
      proof cases
        case 1
        with first have "?c (pats ! k) < ?c (pats ! i)" by simp
        moreover from k(4) i have "?c (pats ! i) \<le> ?c (pats ! k)" by simp
        ultimately show False by simp
      next
        case 2
        with k(3) have "?c (pats ! i) < ?c (pats ! k)" by simp
        moreover from greatest k(1) have "?c (pats ! k) \<le> ?c (pats ! i)" by simp
        ultimately show False by simp
      qed
    qed
    with res show ?thesis by simp
  qed
  moreover have "scan_pattern env td cutoff acc p =
      (if ?c p > snd acc then (Some (snd p), ?c p) else acc)" for acc p
    by (cases acc) (simp add: scan_pattern_count)
  moreover have "set (good_matches cutoff ms) = {m \<in> set ms. m < real_of_int cutoff}" for ms
    by (auto simp: set_good_matches)
  ultimately show ?thesis by (simp add: length_good_matches)
qed

text \<open>
  Two references with two good matches each: whichever is listed first is returned.
\<close>

theorem best_pattern_first_maximum_witness:
  "to_gray stub_env leaf_frame = Inr leaf_gray
   \<and> query_features stub_env leaf_gray = Some [200, 100]
   \<and> good_match_count stub_env [200, 100] 200 (Some fern_gray, ''fern.png'') = 2
   \<and> good_match_count stub_env [200, 100] 200 (Some leaf_gray, ''leaf.png'') = 2
   \<and> patternThresholding stub_env (Some leaf_frame)
        [(Some fern_gray, ''fern.png''), (Some leaf_gray, ''leaf.png'')] 200
       = Inr (Some ''fern.png'')
   \<and> patternThresholding stub_env (Some leaf_frame)
        [(Some leaf_gray, ''leaf.png''), (Some fern_gray, ''fern.png'')] 200
       = Inr (Some ''leaf.png'')"
proof -
  let ?fern = "(Some fern_gray, ''fern.png'')"
  let ?leaf = "(Some leaf_gray, ''leaf.png'')"
  have gray: "to_gray stub_env leaf_frame = Inr leaf_gray" by code_simp
  have td: "query_features stub_env leaf_gray = Some [200, 100]" by code_simp
  have fern: "good_match_count stub_env [200, 100] 200 ?fern = 2" by code_simp
  have leaf: "good_match_count stub_env [200, 100] 200 ?leaf = 2" by code_simp
  have 1: "patternThresholding stub_env (Some leaf_frame) [?fern, ?leaf] 200
             = Inr (Some ''fern.png'')"
    using best_pattern_first_maximum [OF gray td, where i = 0 and pats = "[?fern, ?leaf]" and cutoff = 200] fern leaf
    by (simp add: less_Suc_eq)
  have 2: "patternThresholding stub_env (Some leaf_frame) [?leaf, ?fern] 200
             = Inr (Some ''leaf.png'')"
    using best_pattern_first_maximum [OF gray td, where i = 0 and pats = "[?leaf, ?fern]" and cutoff = 200] fern leaf
    by (simp add: less_Suc_eq)
  from gray td fern leaf 1 2 show ?thesis by blast
qed

text \<open>
  Where the grey conversion of the query returns, and no reference bears the name
  \<open>No_Pattern_Match\<close>: \<open>patternThresholding\<close> returns \<open>None\<close> exactly when the query is
  \<open>None\<close> or yields no features (the extractor raises, or finds no keypoint or no
  descriptor), and returns \<open>No_Pattern_Match\<close> exactly when the query has features and
  no reference has a good-match count above zero.
\<close>

theorem null_and_sentinel:
  assumes gray: "to_gray env img = Inr g"
    and reserved: "\<forall>p \<in> set pats. snd p \<noteq> ''No_Pattern_Match''"
  shows "patternThresholding env None pats cutoff = Inr None
       \<and> (patternThresholding env (Some img) pats cutoff = Inr None
            \<longleftrightarrow> query_features env g = None)
       \<and> (patternThresholding env (Some img) pats cutoff = Inr (Some ''No_Pattern_Match'')
            \<longleftrightarrow> (\<exists>td. query_features env g = Some td
                     \<and> (\<forall>p \<in> set pats. good_match_count env td cutoff p = 0)))"
proof (intro conjI)
  show "patternThresholding env None pats cutoff = Inr None" by simp
next
  show "patternThresholding env (Some img) pats cutoff = Inr None
          \<longleftrightarrow> query_features env g = None"
  proof (cases "query_features env g")
    case None
    with patternThresholding_no_features [OF gray None] show ?thesis by simp
  next
    case (Some td)
    from patternThresholding_scan [OF gray Some, where cutoff = cutoff and pats = pats] Some
    show ?thesis by auto
  qed
next
  show "patternThresholding env (Some img) pats cutoff = Inr (Some ''No_Pattern_Match'')
          \<longleftrightarrow> (\<exists>td. query_features env g = Some td
                   \<and> (\<forall>p \<in> set pats. good_match_count env td cutoff p = 0))"
  proof (cases "query_features env g")
    case None
    with patternThresholding_no_features [OF gray None, where cutoff = cutoff and pats = pats]
    show ?thesis by simp
  next
    case (Some td)
    from patternThresholding_scan [OF gray Some, where cutoff = cutoff and pats = pats]
    show ?thesis
    proof (elim disjE exE conjE)
      assume "\<forall>j < length pats. good_match_count env td cutoff (pats ! j) = 0"
        "patternThresholding env (Some img) pats cutoff = Inr (Some ''No_Pattern_Match'')"
      with Some show ?thesis by (simp add: all_set_conv_all_nth)
    next
      fix i
      assume i: "i < length pats" "0 < good_match_count env td cutoff (pats ! i)"
        and res: "patternThresholding env (Some img) pats cutoff = Inr (Some (snd (pats ! i)))"
      from i(1) have mem: "pats ! i \<in> set pats" by simp
      with reserved have "snd (pats ! i) \<noteq> ''No_Pattern_Match''" by blast
      with res have l: "patternThresholding env (Some img) pats cutoff
                          \<noteq> Inr (Some ''No_Pattern_Match'')"
        by simp
      from mem i(2) have "\<not> (\<forall>p \<in> set pats. good_match_count env td cutoff p = 0)"
        by force
      with l Some show ?thesis by simp
    qed
  qed
qed

theorem null_and_sentinel_witness:
  "to_gray stub_env dark_frame = Inr \<lparr>shape = [1, 2], elems = [0, 0]\<rparr>
   \<and> query_features stub_env \<lparr>shape = [1, 2], elems = [0, 0]\<rparr> = None
   \<and> patternThresholding stub_env (Some dark_frame) [(Some leaf_gray, ''leaf.png'')] 200
       = Inr None
   \<and> to_gray stub_env leaf_frame = Inr leaf_gray
   \<and> query_features stub_env leaf_gray = Some [200, 100]
   \<and> good_match_count stub_env [200, 100] 5 (Some fern_gray, ''fern.png'') = 0
   \<and> patternThresholding stub_env (Some leaf_frame) [(Some fern_gray, ''fern.png'')] 5
       = Inr (Some ''No_Pattern_Match'')"
proof -
  have dgray: "to_gray stub_env dark_frame = Inr \<lparr>shape = [1, 2], elems = [0, 0]\<rparr>"
    by code_simp
  have dnone: "query_features stub_env \<lparr>shape = [1, 2], elems = [0, 0]\<rparr> = None"
    by code_simp
  have gray: "to_gray stub_env leaf_frame = Inr leaf_gray" by code_simp
  have td: "query_features stub_env leaf_gray = Some [200, 100]" by code_simp
  have fern: "good_match_count stub_env [200, 100] 5 (Some fern_gray, ''fern.png'') = 0"
    by code_simp
  have r1: "\<forall>p \<in> set [(Some leaf_gray, ''leaf.png'')]. snd p \<noteq> ''No_Pattern_Match''"
    by simp
  have r2: "\<forall>p \<in> set [(Some fern_gray, ''fern.png'')]. snd p \<noteq> ''No_Pattern_Match''"
    by simp
  from null_and_sentinel [OF dgray r1, where cutoff = 200] dnone
  have 1: "patternThresholding stub_env (Some dark_frame) [(Some leaf_gray, ''leaf.png'')] 200
             = Inr None"
    by simp
  from null_and_sentinel [OF gray r2, where cutoff = 5] td fern
  have 2: "patternThresholding stub_env (Some leaf_frame) [(Some fern_gray, ''fern.png'')] 5
             = Inr (Some ''No_Pattern_Match'')"
    by simp
  from dgray dnone gray td fern 1 2 show ?thesis by blast
qed

text \<open>
  C3. A query image without pixels yields no features, and the claim has
  \<open>patternThresholding\<close> return \<open>None\<close> for it. For a colour image of shape
  \<open>(0, 0, 3)\<close> it does not: the grey conversion of line 114 stands outside the \<open>try\<close>
  of lines 118-122, \<open>cvtColor\<close> rejects the empty source, and the function raises
  instead of returning \<open>None\<close>. The same image without the channel axis, of shape
  \<open>(0, 0)\<close>, gives \<open>None\<close>.
\<close>

theorem empty_colour_query_raises:
  "array_size empty_color_image = 0
   \<and> length (shape empty_color_image) = 3
   \<and> cvtColor stub_env empty_color_image = Inl CvError
   \<and> patternThresholding stub_env (Some empty_color_image)
        [(Some leaf_gray, ''leaf.png'')] 200
       = Inl CvError
   \<and> patternThresholding stub_env (Some \<lparr>shape = [0, 0], elems = []\<rparr>)
        [(Some leaf_gray, ''leaf.png'')] 200
       = Inr None"
  by code_simp

subsection \<open>Frame-pair evaluator\<close>

text \<open>
  Name \<open>solid\<close> the outcome of the solid-colour stage (on the realsense frame; false
  when the stage is off) and \<open>scene\<close> that of the scene-content stage (on the raw
  frame, in the world \<open>w\<close>; not disqualified when the stage is off). If \<open>solid\<close> is
  true the pair is rejected with the world untouched: no request has gone to the
  model. Otherwise, if \<open>scene\<close> disqualifies, the pair is rejected with the first 50
  characters of the model's text. Otherwise the label is computed, and the call of
  \<open>sort_into_folders\<close> raises \<open>NameError\<close>. So the evaluator never returns an accepted
  verdict, and it never changes the file system. The request the scene stage sends
  carries the raw frame. The label computed is \<open>Uncategorized\<close> when pattern matching
  is off, \<open>No_Patterns_Available\<close> when it is on with no references,
  \<open>No_Pattern_Match\<close> when the matcher (run on the realsense frame) returns \<open>None\<close>,
  and the matcher's non-empty result otherwise.
\<close>

theorem evaluator_stage_order:
  assumes call: "result = load_and_process_frame_pair env raw_frame_cv raw_frame_name
                   realsense_frame_cv realsense_frame_name pats out
                   run_solid_color_check run_object_detection run_pattern_matching
                   bw prompt cutoff w"
    and solid: "solid = (if run_solid_color_check
                         then is_mostly_black_or_white env realsense_frame_cv
                                (black_thresh bw) (white_thresh bw) (percentage_thresh bw)
                         else Inr False)"
    and scene: "scene = (if run_object_detection
                         then modelObjectDetection env raw_frame_cv prompt w
                         else ((False, []), w))"
  shows "(solid = Inr True
            \<longrightarrow> result = (Inr (False, ''Rejected: Mostly black or white''), w))
       \<and> (solid = Inr False \<and> fst (fst scene)
            \<longrightarrow> result = (Inr (False, ''Rejected: Man-made objects detected (''
                                       @ take 50 (snd (fst scene)) @ ''...)''), snd scene))
       \<and> (solid = Inr False \<and> \<not> fst (fst scene)
            \<longrightarrow> result =
                  (case classification env realsense_frame_cv pats run_pattern_matching cutoff of
                     Inl e \<Rightarrow> (Inl e, snd scene)
                   | Inr label \<Rightarrow> (Inl (NameError ''Path''), snd scene)))
       \<and> (\<forall>label. fst result \<noteq> Inr (True, label))
       \<and> fs (snd result) = fs w
       \<and> (\<forall>raw image_bytes. run_object_detection \<and> raw_frame_cv = Some raw
              \<and> imencode env raw = Inr image_bytes
            \<longrightarrow> requests (snd scene) = requests w @ [(raw, prompt)])
       \<and> (\<not> run_pattern_matching
            \<longrightarrow> classification env realsense_frame_cv pats run_pattern_matching cutoff
                  = Inr ''Uncategorized'')
       \<and> (run_pattern_matching \<and> pats = []
            \<longrightarrow> classification env realsense_frame_cv pats run_pattern_matching cutoff
                  = Inr ''No_Patterns_Available'')
       \<and> (run_pattern_matching \<and> pats \<noteq> []
              \<and> patternThresholding env realsense_frame_cv pats cutoff = Inr None
            \<longrightarrow> classification env realsense_frame_cv pats run_pattern_matching cutoff
                  = Inr ''No_Pattern_Match'')
       \<and> (\<forall>name. run_pattern_matching \<and> pats \<noteq> [] \<and> name \<noteq> []
              \<and> patternThresholding env realsense_frame_cv pats cutoff = Inr (Some name)
            \<longrightarrow> classification env realsense_frame_cv pats run_pattern_matching cutoff
                  = Inr name)"
proof -
  have scene_fs: "fs (snd scene) = fs w"
    using scene
    by (auto simp: modelObjectDetection_def Let_def
             split: if_splits option.splits sum.splits)
  have 0: "result = (Inl e, w)" if "solid = Inl e" for e
  proof -
    from that solid have
      "(if run_solid_color_check
        then is_mostly_black_or_white env realsense_frame_cv
               (black_thresh bw) (white_thresh bw) (percentage_thresh bw)
        else Inr False) = Inl e"
      by simp
    then show ?thesis
      unfolding call load_and_process_frame_pair_def by simp
  qed
  have 1: "result = (Inr (False, ''Rejected: Mostly black or white''), w)"
    if "solid = Inr True"
  proof -
    from that solid have
      "(if run_solid_color_check
        then is_mostly_black_or_white env realsense_frame_cv
               (black_thresh bw) (white_thresh bw) (percentage_thresh bw)
        else Inr False) = Inr True"
      by simp
    then show ?thesis
      unfolding call load_and_process_frame_pair_def by simp
  qed
  have 2: "result = (Inr (False, ''Rejected: Man-made objects detected (''
                                   @ take 50 (snd (fst scene)) @ ''...)''), snd scene)"
    if no: "solid = Inr False" and yes: "fst (fst scene)"
  proof -
    obtain reason w1 where s: "scene = ((True, reason), w1)"
      using yes by (cases scene) auto
    from s scene have
      "(if run_object_detection then modelObjectDetection env raw_frame_cv prompt w
        else ((False, []), w)) = ((True, reason), w1)"
      by simp
    moreover from no solid have
      "(if run_solid_color_check
        then is_mostly_black_or_white env realsense_frame_cv
               (black_thresh bw) (white_thresh bw) (percentage_thresh bw)
        else Inr False) = Inr False"
      by simp
    ultimately have "result = (Inr (False, ''Rejected: Man-made objects detected (''
                                   @ take 50 reason @ ''...)''), w1)"
      unfolding call load_and_process_frame_pair_def by simp
    then show ?thesis using s by simp
  qed
  have 3: "result =
             (case classification env realsense_frame_cv pats run_pattern_matching cutoff of
                Inl e \<Rightarrow> (Inl e, snd scene)
              | Inr label \<Rightarrow> (Inl (NameError ''Path''), snd scene))"
    if no: "solid = Inr False" and pass: "\<not> fst (fst scene)"
  proof -
    obtain reason w1 where s: "scene = ((False, reason), w1)"
      using pass by (cases scene) auto
    from s scene have
      "(if run_object_detection then modelObjectDetection env raw_frame_cv prompt w
        else ((False, []), w)) = ((False, reason), w1)"
      by simp
    moreover from no solid have
      "(if run_solid_color_check
        then is_mostly_black_or_white env realsense_frame_cv
               (black_thresh bw) (white_thresh bw) (percentage_thresh bw)
        else Inr False) = Inr False"
      by simp
    ultimately show ?thesis
      unfolding call load_and_process_frame_pair_def s
      by (simp add: sort_into_folders_def cong del: sum.case_cong_weak)
  qed
  have shape: "(\<forall>label. fst result \<noteq> Inr (True, label)) \<and> fs (snd result) = fs w"
  proof (cases solid)
    case (Inl e)
    with 0 show ?thesis by simp
  next
    case (Inr b)
    show ?thesis
    proof (cases b)
      case True
      with Inr 1 show ?thesis by simp
    next
      case False
      show ?thesis
      proof (cases "fst (fst scene)")
        case True
        with Inr False 2 scene_fs show ?thesis by simp
      next
        case pass: False
        with Inr False 3 scene_fs show ?thesis
          by (simp split: sum.splits)
      qed
    qed
  qed
  have 8: "requests (snd scene) = requests w @ [(raw, prompt)]"
    if "run_object_detection" and "raw_frame_cv = Some raw"
      and "imencode env raw = Inr image_bytes" for raw image_bytes
    using that scene
    by (simp add: modelObjectDetection_def Let_def split: sum.splits)
  have 4: "classification env realsense_frame_cv pats run_pattern_matching cutoff
             = Inr ''Uncategorized''" if "\<not> run_pattern_matching"
    using that by (simp add: classification_def)
  have 5: "classification env realsense_frame_cv pats run_pattern_matching cutoff
             = Inr ''No_Patterns_Available''" if "run_pattern_matching" and "pats = []"
    using that by (simp add: classification_def)
  have 6: "classification env realsense_frame_cv pats run_pattern_matching cutoff
             = Inr ''No_Pattern_Match''"
    if "run_pattern_matching" and "pats \<noteq> []"
      and "patternThresholding env realsense_frame_cv pats cutoff = Inr None"
    using that by (simp add: classification_def)
  have 7: "classification env realsense_frame_cv pats run_pattern_matching cutoff = Inr name"
    if "run_pattern_matching" and "pats \<noteq> []" and "name \<noteq> []"
      and "patternThresholding env realsense_frame_cv pats cutoff = Inr (Some name)" for name
    using that by (simp add: classification_def)
  from 1 2 3 4 5 6 7 8 shape show ?thesis by blast
qed

theorem evaluator_stage_order_witness:
  "load_and_process_frame_pair stub_env (Some gray_frame) ''raw_frame_00000.png''
       (Some white_frame) ''realsense_frame_00000.png'' []
       [''pipeline_output'', ''j1'', ''Accepted_images'']
       True True True default_bw ''Any fence?'' 200 empty_world
     = (Inr (False, ''Rejected: Mostly black or white''), empty_world)
   \<and> load_and_process_frame_pair stub_env (Some fence_frame) ''raw_frame_00001.png''
       (Some gray_frame) ''realsense_frame_00001.png'' []
       [''pipeline_output'', ''j1'', ''Accepted_images'']
       True True True default_bw ''Any fence?'' 200 empty_world
     = (Inr (False, ''Rejected: Man-made objects detected (True: a fence crosses the scene...)''),
        \<lparr>fs = [], requests = [(fence_frame, ''Any fence?'')]\<rparr>)
   \<and> classification stub_env (Some dark_frame) [(Some leaf_gray, ''leaf.png'')] True 200
     = Inr ''No_Pattern_Match''
   \<and> load_and_process_frame_pair stub_env (Some leaf_frame) ''raw_frame_00002.png''
       (Some dark_frame) ''realsense_frame_00002.png'' [(Some leaf_gray, ''leaf.png'')]
       [''pipeline_output'', ''j1'', ''Accepted_images'']
       False True True default_bw ''Any fence?'' 200 empty_world
     = (Inl (NameError ''Path''), \<lparr>fs = [], requests = [(leaf_frame, ''Any fence?'')]\<rparr>)"
proof -
  let ?out = "[''pipeline_output'', ''j1'', ''Accepted_images'']"
  have solid1: "(if True then is_mostly_black_or_white stub_env (Some white_frame)
                    (black_thresh default_bw) (white_thresh default_bw)
                    (percentage_thresh default_bw)
                 else Inr False) = Inr True"
    by code_simp
  from evaluator_stage_order
         [OF refl refl refl, where env = stub_env and realsense_frame_cv = "Some white_frame"
            and run_solid_color_check = True and bw = default_bw, THEN conjunct1] solid1
  have 1: "load_and_process_frame_pair stub_env (Some gray_frame) ''raw_frame_00000.png''
       (Some white_frame) ''realsense_frame_00000.png'' [] ?out True True True default_bw
       ''Any fence?'' 200 empty_world
     = (Inr (False, ''Rejected: Mostly black or white''), empty_world)"
    by simp
  have solid2: "(if True then is_mostly_black_or_white stub_env (Some gray_frame)
                    (black_thresh default_bw) (white_thresh default_bw)
                    (percentage_thresh default_bw)
                 else Inr False) = Inr False"
    by code_simp
  have scene2: "(if True then modelObjectDetection stub_env (Some fence_frame) ''Any fence?''
                    empty_world else ((False, []), empty_world))
                = ((True, ''True: a fence crosses the scene''),
                   \<lparr>fs = [], requests = [(fence_frame, ''Any fence?'')]\<rparr>)"
    by code_simp
  from evaluator_stage_order
         [OF refl refl refl, where env = stub_env and realsense_frame_cv = "Some gray_frame"
            and raw_frame_cv = "Some fence_frame" and prompt = "''Any fence?''"
            and w = empty_world and run_object_detection = True
            and run_solid_color_check = True and bw = default_bw,
          THEN conjunct2, THEN conjunct1] solid2 scene2
  have 2: "load_and_process_frame_pair stub_env (Some fence_frame) ''raw_frame_00001.png''
       (Some gray_frame) ''realsense_frame_00001.png'' [] ?out True True True default_bw
       ''Any fence?'' 200 empty_world
     = (Inr (False, ''Rejected: Man-made objects detected (True: a fence crosses the scene...)''),
        \<lparr>fs = [], requests = [(fence_frame, ''Any fence?'')]\<rparr>)"
    by simp
  have scene3: "(if True then modelObjectDetection stub_env (Some leaf_frame) ''Any fence?''
                    empty_world else ((False, []), empty_world))
                = ((False, ''FALSE - only vegetation''),
                   \<lparr>fs = [], requests = [(leaf_frame, ''Any fence?'')]\<rparr>)"
    by code_simp
  have none3: "patternThresholding stub_env (Some dark_frame) [(Some leaf_gray, ''leaf.png'')] 200
                 = Inr None"
    by code_simp
  note inst = evaluator_stage_order
         [OF refl refl refl, where env = stub_env and realsense_frame_cv = "Some dark_frame"
            and raw_frame_cv = "Some leaf_frame" and prompt = "''Any fence?''"
            and w = empty_world and run_object_detection = True
            and run_solid_color_check = False and bw = default_bw
            and pats = "[(Some leaf_gray, ''leaf.png'')]" and cutoff = 200
            and run_pattern_matching = True and out = ?out
            and raw_frame_name = "''raw_frame_00002.png''"
            and realsense_frame_name = "''realsense_frame_00002.png''"]
  from inst none3
  have label3: "classification stub_env (Some dark_frame) [(Some leaf_gray, ''leaf.png'')]
                  True 200 = Inr ''No_Pattern_Match''"
    by simp
  from inst [THEN conjunct2, THEN conjunct2, THEN conjunct1] scene3 label3
  have 3: "load_and_process_frame_pair stub_env (Some leaf_frame) ''raw_frame_00002.png''
          (Some dark_frame) ''realsense_frame_00002.png'' [(Some leaf_gray, ''leaf.png'')]
          ?out False True True default_bw ''Any fence?'' 200 empty_world
     = (Inl (NameError ''Path''), \<lparr>fs = [], requests = [(leaf_frame, ''Any fence?'')]\<rparr>)"
    by simp
  from 1 2 label3 3 show ?thesis by blast
qed

text \<open>
  C2. The stages run in the order of the claim and the two rejections are returned as
  it says, but no pair is ever accepted under a label. With all three stages off the
  claim has the pair accepted as \<open>Uncategorized\<close>; with pattern matching on and no
  reference, as \<open>No_Patterns_Available\<close>; with a reference that matches, under its
  name. In each case the label is computed and the evaluator then raises \<open>NameError\<close>
  at line 175 of \<open>sort_into_folders\<close>, where \<open>Path\<close> is not bound, before the
  \<open>return True, classification_name\<close> of line 264.
\<close>

theorem accepted_pair_raises:
  "load_and_process_frame_pair stub_env (Some gray_frame) ''raw_frame_00000.png''
       (Some gray_frame) ''realsense_frame_00000.png'' []
       [''pipeline_output'', ''j1'', ''Accepted_images'']
       False False False default_bw ''Any fence?'' 200 empty_world
     = (Inl (NameError ''Path''), empty_world)
   \<and> classification stub_env (Some gray_frame) [] True 200 = Inr ''No_Patterns_Available''
   \<and> load_and_process_frame_pair stub_env (Some gray_frame) ''raw_frame_00000.png''
       (Some gray_frame) ''realsense_frame_00000.png'' []
       [''pipeline_output'', ''j1'', ''Accepted_images'']
       True True True default_bw ''Any fence?'' 200 empty_world
     = (Inl (NameError ''Path''), \<lparr>fs = [], requests = [(gray_frame, ''Any fence?'')]\<rparr>)
   \<and> is_mostly_black_or_white stub_env (Some leaf_frame) 30 225 (60 / 100) = Inr False
   \<and> modelObjectDetection stub_env (Some leaf_frame) ''Any fence?'' empty_world
     = ((False, ''FALSE - only vegetation''),
        \<lparr>fs = [], requests = [(leaf_frame, ''Any fence?'')]\<rparr>)
   \<and> classification stub_env (Some leaf_frame) [(Some leaf_gray, ''leaf.png'')] True 200
     = Inr ''leaf.png''
   \<and> load_and_process_frame_pair stub_env (Some leaf_frame) ''raw_frame_00002.png''
       (Some leaf_frame) ''realsense_frame_00002.png'' [(Some leaf_gray, ''leaf.png'')]
       [''pipeline_output'', ''j1'', ''Accepted_images'']
       True True True default_bw ''Any fence?'' 200 empty_world
     = (Inl (NameError ''Path''), \<lparr>fs = [], requests = [(leaf_frame, ''Any fence?'')]\<rparr>)"
  by code_simp

subsection \<open>Output writers, walker and archiver\<close>

text \<open>
  Every call of \<open>process_video_frames\<close> raises \<open>NameError\<close> at line 290 and leaves the
  file system and the requests as they were.
\<close>

theorem process_video_frames_raises:
  "process_video_frames job_id path_to_raw_video path_to_realsense_video
       pattern_image_paths thres pipeline_config w
     = (Inl (NameError ''Path''), w)"
  by (simp add: process_video_frames_def)

text \<open>
  So does every call of \<open>sort_into_folders\<close>,
  \<open>create_text_file_with_removed_images\<close> and \<open>create_zip_from_directory\<close>, at lines
  175, 186 and 194.
\<close>

theorem output_writers_raise:
  "sort_into_folders output_base_dir name_folder raw_image_cv raw_image_name
       realsense_image_cv realsense_image_name w
     = (Inl (NameError ''Path''), w)
   \<and> create_text_file_with_removed_images output_base_dir removed_images_log w
     = (Inl (NameError ''Path''), w)
   \<and> create_zip_from_directory directory_path_str job_id w
     = (Inl (NameError ''Path''), w)"
  by (simp add: sort_into_folders_def create_text_file_with_removed_images_def
                create_zip_from_directory_def)

text \<open>
  C9. The claim has the output directory of job \<open>J\<close> removed and made anew at the
  start of every run. Lines 291-295 are written to do so, but line 290 raises
  \<open>NameError\<close> before them (\<open>Path\<close> is not bound): the run below, for job \<open>j1\<close> in a
  world that holds an accepted image of an earlier run of \<open>j1\<close>, ends with that
  exception and leaves the world as it was, the earlier image included.
\<close>

theorem output_dir_left_as_it_was:
  "process_video_frames ''j1'' ''raw.mp4'' ''realsense.mp4'' [] default_thresholds
       all_stages old_world
     = (Inl (NameError ''Path''), old_world)
   \<and> map_of (fs old_world)
        [''pipeline_output'', ''j1'', ''Accepted_images'', ''Uncategorized'', ''raw'',
         ''raw_frame_00000.png'']
     = Some (File (Png gray_frame))"
  by (simp add: process_video_frames_def old_world_def)

text \<open>
  C7. The claim has the loop process the first \<open>m\<close> pairs of two sources of \<open>m < n\<close>
  frames. A run on a raw video of 3 frames and a realsense video of 5 raises
  \<open>NameError\<close> at line 290 (\<open>Path\<close> is not bound), before either video is opened
  (lines 317-318): no pair is processed and no count is returned.
\<close>

theorem walker_never_starts:
  "process_video_frames ''j7'' ''raw_of_3_frames.mp4'' ''realsense_of_5_frames.mp4'' []
       default_thresholds all_stages empty_world
     = (Inl (NameError ''Path''), empty_world)"
  by (simp add: process_video_frames_def)



text \<open>
  C1. The claim has a run in which no pair is accepted return normally, with no
  archive name. A run on two all-white videos, none of whose pairs can be accepted,
  does not return: it raises \<open>NameError\<close> at line 290 (\<open>Path\<close> is not bound).
\<close>

theorem run_without_accepted_pairs_raises:
  "process_video_frames ''j2'' ''white_raw.mp4'' ''white_realsense.mp4'' []
       default_thresholds all_stages empty_world
     = (Inl (NameError ''Path''), empty_world)"
  by (simp add: process_video_frames_def)

end
